theory Spec2Isabelle
  imports Complex_Main
begin

section \<open>The client-side router of the view-transitions component\<close>

text \<open>
  The script embedded in the component (the part of \<^verbatim>\<open>astro.ts\<close> after the document
  separator) is modelled as a reactive system: a record \<open>World\<close> holds what the script
  can read and write (the live document, the session history, the scroll offset, the
  module variable \<open>currentHistoryIndex\<close>, the closure variable of the throttle), the
  continuations and callbacks that are waiting for the browser (\<open>pending\<close>), and a log
  of the effects performed so far, in program order (\<open>effects\<close>).

  Conventions of the embedding:
  \<^item> A JavaScript number that holds a history index is an \<open>int\<close>, standing for the
    double of that value; \<open>++\<close> and \<open>- 1\<close> round their result to the nearest double, as
    the machine does, so that the index stops growing at \<open>2^53\<close>. Indices that are not
    whole numbers, \<open>NaN\<close> and the infinities (which only foreign code could have stored
    in \<open>history.state\<close>) are not represented.
  \<^item> A scroll offset is a \<open>rat\<close> (every finite double is one); the script only copies
    offsets and never computes with them.
  \<^item> \<open>null\<close> and \<open>undefined\<close> are \<open>None\<close>.
  \<^item> An element is its tag name (lower case), its attributes in order, its character
    data and its child elements. Elements are values: two nodes with the same content
    are equal, and removing or replacing ``the node found by a query'' acts on the first
    node in tree order that equals it, which is the node the query found.
  \<^item> The selectors the script builds are represented by the predicates they denote,
    with the value of \<open>rel\<close> compared without regard to ASCII case, as selectors do in
    an HTML document. For a template such as
    \<^verbatim>\<open>[data-astro-transition-persist="${id}"]\<close> this is the selector's meaning when
    the interpolated text is plain, that is, stands for itself inside a CSS string (no
    double quote, backslash, line break or NUL). For any other text the model takes the
    selector as malformed, so that \<open>querySelector\<close> throws a \<open>SyntaxError\<close>; this is
    what a stray double quote or line break does, while the rare texts that stay
    well-formed through escapes are not followed. The theorems about reconciliation
    assume plain texts.
  \<^item> An exception is a value: a function that can be left by one returns the world
    as the exception found it, together with the exception.
  \<^item> The text returned by \<open>fetch\<close> is represented by the document that
    \<open>DOMParser.parseFromString\<close> builds from it.
  \<^item> An \<open>async\<close> function is split at its \<open>await\<close>s. A continuation that waits for
    the browser is a \<open>Task\<close> in \<open>pending\<close>; an \<open>await\<close> on a promise that is already
    settled continues in the same turn of the event loop, before any timer or event
    callback can run, so the model runs it on the spot.
\<close>

subsection \<open>Elements and queries\<close>

datatype Element = Element (tagName: string) (attributes: "(string \<times> string) list")
  (innerHTML: string) (children: "Element list")

definition getAttribute :: "Element \<Rightarrow> string \<Rightarrow> string option" where
  "getAttribute el name = map_of (attributes el) name"

fun setAttr :: "string \<Rightarrow> string \<Rightarrow> (string \<times> string) list \<Rightarrow> (string \<times> string) list" where
  "setAttr name v [] = [(name, v)]"
| "setAttr name v ((n, x) # as) = (if n = name then (n, v) # as else (n, x) # setAttr name v as)"

definition removeAttr :: "string \<Rightarrow> (string \<times> string) list \<Rightarrow> (string \<times> string) list" where
  "removeAttr name as = filter (\<lambda>(n, x). n \<noteq> name) as"

text \<open>All elements of a forest in tree order (each element before its descendants).\<close>

fun descendants :: "Element list \<Rightarrow> Element list" where
  "descendants [] = []"
| "descendants (Element t a h cs # es) = Element t a h cs # descendants cs @ descendants es"

text \<open>\<open>root.querySelector(sel)\<close> and \<open>root.querySelectorAll(sel)\<close> over the forest below \<open>root\<close>.\<close>

definition querySelector :: "(Element \<Rightarrow> bool) \<Rightarrow> Element list \<Rightarrow> Element option" where
  "querySelector sel forest = find sel (descendants forest)"

definition querySelectorAll :: "(Element \<Rightarrow> bool) \<Rightarrow> Element list \<Rightarrow> Element list" where
  "querySelectorAll sel forest = filter sel (descendants forest)"

text \<open>\<open>node.remove()\<close>: the first node in tree order equal to \<open>x\<close> leaves the forest, with its subtree.\<close>

fun remove :: "Element \<Rightarrow> Element list \<Rightarrow> Element list" where
  "remove x [] = []"
| "remove x (Element t a h cs # es) =
     (if Element t a h cs = x then es
      else if x \<in> set (descendants cs) then Element t a h (remove x cs) # es
      else Element t a h cs # remove x es)"

text \<open>\<open>node.replaceWith(y)\<close>: the first node in tree order equal to \<open>x\<close> is replaced by \<open>y\<close>.\<close>

fun replaceWith :: "Element \<Rightarrow> Element \<Rightarrow> Element list \<Rightarrow> Element list" where
  "replaceWith x y [] = []"
| "replaceWith x y (Element t a h cs # es) =
     (if Element t a h cs = x then y # es
      else if x \<in> set (descendants cs) then Element t a h (replaceWith x y cs) # es
      else Element t a h cs # replaceWith x y es)"

text \<open>The selectors of the script.\<close>

definition PERSIST_ATTR :: string where
  "PERSIST_ATTR = ''data-astro-transition-persist''"

text \<open>Template interpolation \<^verbatim>\<open>${v}\<close> of a value that may be \<open>null\<close>.\<close>

definition interpolate :: "string option \<Rightarrow> string" where
  "interpolate v = (case v of None \<Rightarrow> ''null'' | Some s \<Rightarrow> s)"

text \<open>\<^verbatim>\<open>[name="v"]\<close>\<close>

definition attrIs :: "string \<Rightarrow> string \<Rightarrow> Element \<Rightarrow> bool" where
  "attrIs name v el = (getAttribute el name = Some v)"

text \<open>\<^verbatim>\<open>[name]\<close>\<close>

definition hasAttr :: "string \<Rightarrow> Element \<Rightarrow> bool" where
  "hasAttr name el = (getAttribute el name \<noteq> None)"

text \<open>
  \<^verbatim>\<open>[name=v]\<close> for an attribute whose value a selector in an HTML document compares
  ASCII case-insensitively; \<open>rel\<close> is one of them.
\<close>

definition asciiLower :: "char \<Rightarrow> char" where
  "asciiLower c =
     (case map_of (zip ''ABCDEFGHIJKLMNOPQRSTUVWXYZ'' ''abcdefghijklmnopqrstuvwxyz'') c of
        Some l \<Rightarrow> l
      | None \<Rightarrow> c)"

definition attrIsNoCase :: "string \<Rightarrow> string \<Rightarrow> Element \<Rightarrow> bool" where
  "attrIsNoCase name v el =
     (case getAttribute el name of
        None \<Rightarrow> False
      | Some x \<Rightarrow> map asciiLower x = map asciiLower v)"

text \<open>\<^verbatim>\<open>link[rel=stylesheet]\<close>\<close>

definition linkStylesheet :: "Element \<Rightarrow> bool" where
  "linkStylesheet el = (tagName el = ''link'' \<and> attrIsNoCase ''rel'' ''stylesheet'' el)"

text \<open>\<^verbatim>\<open>link[rel=stylesheet][href="h"]\<close>\<close>

definition linkStylesheetHref :: "string \<Rightarrow> Element \<Rightarrow> bool" where
  "linkStylesheetHref h el = (linkStylesheet el \<and> attrIs ''href'' h el)"

text \<open>\<^verbatim>\<open>link[rel=prefetch][href="h"]\<close>\<close>

definition linkPrefetchHref :: "string \<Rightarrow> Element \<Rightarrow> bool" where
  "linkPrefetchHref h el =
     (tagName el = ''link'' \<and> attrIsNoCase ''rel'' ''prefetch'' el \<and> attrIs ''href'' h el)"

text \<open>
  A text is plain when it stands for itself between the double quotes of a selector;
  \<open>querySelector\<close> throws for a selector it cannot parse.
\<close>

datatype DOMException = SyntaxError

definition cssPlain :: "string \<Rightarrow> bool" where
  "cssPlain v =
     list_all (\<lambda>c. c \<notin> set [CHR 0x22, CHR 0x5C, CHR 0x0A, CHR 0x0C, CHR 0x0D, CHR 0x00]) v"

subsection \<open>Documents\<close>

text \<open>
  A document is its root element's attributes, the attributes and children of its
  \<open>head\<close>, and its \<open>body\<close> element.
\<close>

record Document =
  htmlAttrs :: "(string \<times> string) list"
  headAttrs :: "(string \<times> string) list"
  head :: "Element list"
  body :: Element

text \<open>The tree that \<open>document.querySelector\<close> searches.\<close>

definition documentElement :: "Document \<Rightarrow> Element" where
  "documentElement d =
     Element ''html'' (htmlAttrs d) [] [Element ''head'' (headAttrs d) [] (head d), body d]"

definition docQuerySelector :: "(Element \<Rightarrow> bool) \<Rightarrow> Document \<Rightarrow> Element option" where
  "docQuerySelector sel d = querySelector sel [documentElement d]"

text \<open>\<open>document.scripts\<close>: the script elements of the document in tree order.\<close>

definition scripts :: "Document \<Rightarrow> Element list" where
  "scripts d = querySelectorAll (\<lambda>el. tagName el = ''script'') [documentElement d]"

text \<open>
  \<open>x.replaceWith(y)\<close> for a node \<open>x\<close> found by \<open>document.querySelector\<close>, below
  \<open>head\<close> or in \<open>body\<close> (the \<open>body\<close> element included). A page whose root or \<open>head\<close>
  element itself carries the attribute searched for is outside the model: the document
  is then left as it is.
\<close>

definition docReplaceWith :: "Element \<Rightarrow> Element \<Rightarrow> Document \<Rightarrow> Document" where
  "docReplaceWith x y d =
     (if x \<in> set (descendants (head d)) then d\<lparr>head := replaceWith x y (head d)\<rparr>
      else if x \<in> set (descendants [body d]) then
        (case replaceWith x y [body d] of b # _ \<Rightarrow> d\<lparr>body := b\<rparr> | [] \<Rightarrow> d)
      else d)"

subsection \<open>Numbers\<close>

text \<open>
  The whole numbers up to \<open>2^53\<close> in magnitude are doubles. A larger one is rounded to
  53 significant bits, to the nearest double and, half way between two, to the one with
  the even significand.
\<close>

function bitLength :: "int \<Rightarrow> nat" where
  "bitLength n = (if n \<le> 0 then 0 else Suc (bitLength (n div 2)))"
  by pat_completeness auto
termination
  by (relation "measure nat") auto

definition toDouble :: "int \<Rightarrow> int" where
  "toDouble n =
     (if \<bar>n\<bar> \<le> 2 ^ 53 then n
      else
        (let e = bitLength \<bar>n\<bar> - 53;
             q = \<bar>n\<bar> div 2 ^ e;
             r = \<bar>n\<bar> mod 2 ^ e;
             q1 = (if 2 * r > 2 ^ e \<or> (2 * r = 2 ^ e \<and> odd q) then q + 1 else q)
         in sgn n * q1 * 2 ^ e))"

text \<open>\<open>a + b\<close> and \<open>a - b\<close> on doubles that hold whole numbers.\<close>

definition jsAdd :: "int \<Rightarrow> int \<Rightarrow> int" where
  "jsAdd a b = toDouble (a + b)"

definition jsSub :: "int \<Rightarrow> int \<Rightarrow> int" where
  "jsSub a b = toDouble (a - b)"

subsection \<open>Types of the script\<close>

datatype Direction = Forward | Back

datatype Events = AstroLoad | AstroBeforeload

text \<open>
  \<open>type State = { index: number; scrollY: number }\<close>. The value read back from
  \<open>history.state\<close> is whatever was stored there, so either field may be missing; the
  script guards for that with \<open>?.\<close>, \<open>??\<close>, \<open>||\<close> and \<open>!= null\<close>.
\<close>

record State =
  index :: "int option"
  scrollY :: "rat option"

text \<open>The parts of a URL the script reads from \<open>location\<close> and from an anchor.\<close>

record URL =
  href :: string
  origin :: string
  pathname :: string
  hash :: string

record Anchor = URL +
  target :: string

text \<open>
  The click event, after the listener's first lines have resolved \<open>ev.target\<close> to
  \<open>link\<close> (the target, or its closest \<open>a\<close> ancestor): \<open>link\<close> is \<open>None\<close> when that is
  \<open>null\<close> or not an \<open>HTMLAnchorElement\<close>.
\<close>

record MouseEvent =
  link :: "Anchor option"
  button :: int
  metaKey :: bool
  ctrlKey :: bool
  altKey :: bool
  shiftKey :: bool
  defaultPrevented :: bool

text \<open>\<open>navigator.connection\<close>, where the browser has it.\<close>

record NetworkInformation =
  saveData :: bool
  effectiveType :: "string option"

subsection \<open>Session history\<close>

text \<open>
  The joint session history as a zipper: the entries behind the current one (nearest
  first), the current entry, and the entries ahead of it. \<open>history.state\<close> and
  \<open>location\<close> are the state and URL of the current entry.
\<close>

record History =
  past :: "(State option \<times> URL) list"
  current :: "State option \<times> URL"
  future :: "(State option \<times> URL) list"

definition replaceState :: "State \<Rightarrow> History \<Rightarrow> History" where
  "replaceState st h = h\<lparr>current := (Some st, snd (current h))\<rparr>"

definition pushState :: "State \<Rightarrow> URL \<Rightarrow> History \<Rightarrow> History" where
  "pushState st url h = \<lparr>past = current h # past h, current = (Some st, url), future = []\<rparr>"

text \<open>What the browser does for the back and forward buttons, before it fires \<open>popstate\<close>.\<close>

fun traverse :: "int \<Rightarrow> History \<Rightarrow> History" where
  "traverse delta h =
     (if delta < 0 then
        (case past h of [] \<Rightarrow> h
         | e # es \<Rightarrow> \<lparr>past = es, current = e, future = current h # future h\<rparr>)
      else if delta > 0 then
        (case future h of [] \<Rightarrow> h
         | e # es \<Rightarrow> \<lparr>past = current h # past h, current = e, future = es\<rparr>)
      else h)"

subsection \<open>Effects, pending work and the world\<close>

text \<open>What the script does to the browser, logged in program order.\<close>

datatype Effect =
    Fetch string
  | LocationAssign string
  | LocationReload
  | DispatchEvent Events
  | HistoryReplaceState State
  | HistoryPushState State string
  | ScrollTo rat rat
  | PreventDefault
  | AppendToHead Element
  | SwapHead
  | ReplaceBody
  | InsertScript Element
  | SetTimeout nat

text \<open>
  Continuations and callbacks that wait for the browser.
  \<^item> \<open>AwaitGetHTML\<close>: \<open>navigate\<close> at \<open>await getHTML(href)\<close>.
  \<^item> \<open>ViewTransitionUpdate\<close>: \<open>document.startViewTransition\<close> has been called and the
    browser has not yet run the update callback.
  \<^item> \<open>AwaitLinks\<close>: \<open>updateDOM\<close> at \<open>await Promise.all(links)\<close>, with the number of
    preloads not yet settled; the flag tells whether \<open>updateDOM\<close> runs as the update
    callback of a native transition.
  \<^item> \<open>AwaitFinished\<close>: \<open>navigate\<close> at \<open>await finished\<close> for a native transition whose
    update callback has completed.
  \<^item> \<open>FallbackSwap\<close>: the \<open>animationstart\<close> and \<open>animationend\<close> listeners and the
    timeout registered by the \<open>animate\<close> fallback, with the closure variable
    \<open>isAnimating\<close> and whether the timeout is still to fire.
  \<^item> \<open>AwaitScripts\<close>: \<open>navigate\<close> at \<open>await runScripts()\<close>, with the number of \<open>src\<close>
    scripts whose \<open>load\<close> event is outstanding.
  \<^item> \<open>ThrottleTimer\<close>: the timeout set by the throttled scroll callback.
\<close>

datatype Task =
    AwaitGetHTML Direction string "State option"
  | ViewTransitionUpdate Direction Document "State option"
  | AwaitLinks bool Direction Document "State option" "string option" nat
  | AwaitFinished
  | FallbackSwap bool bool Document "State option"
  | AwaitScripts nat
  | ThrottleTimer

text \<open>What the browser delivers to a pending task.\<close>

datatype Payload =
    Response bool Document
  | NetworkError
  | UpdateCallback
  | Settled
  | TransitionFinished
  | AnimationStart
  | AnimationEnd
  | TimerFired
  | ScriptLoad

datatype Listener =
  OnClick | OnPopstate | OnMouseenter | OnTouchstart | OnFocus | OnLoad | OnScroll

record World =
  document :: Document
  history :: History
  currentHistoryIndex :: int
  window_scrollY :: rat
  supportsViewTransitions :: bool
  connection :: "NetworkInformation option"
  throttle_wait :: bool
  listeners :: "Listener list"
  pending :: "Task list"
  effects :: "Effect list"

definition effect :: "Effect \<Rightarrow> World \<Rightarrow> World" where
  "effect e w = w\<lparr>effects := effects w @ [e]\<rparr>"

definition suspend :: "Task \<Rightarrow> World \<Rightarrow> World" where
  "suspend t w = w\<lparr>pending := pending w @ [t]\<rparr>"

definition history_state :: "World \<Rightarrow> State option" where
  "history_state w = fst (current (history w))"

definition location :: "World \<Rightarrow> URL" where
  "location w = snd (current (history w))"

subsection \<open>History state, markers, events\<close>

text \<open>\<open>const persistState = (state) => history.replaceState(state, '')\<close>\<close>

definition persistState :: "State \<Rightarrow> World \<Rightarrow> World" where
  "persistState st w = effect (HistoryReplaceState st) (w\<lparr>history := replaceState st (history w)\<rparr>)"

definition transitionEnabledOnThisPage :: "World \<Rightarrow> bool" where
  "transitionEnabledOnThisPage w =
     (docQuerySelector (attrIs ''name'' ''astro-view-transitions-enabled'') (document w) \<noteq> None)"

definition triggerEvent :: "Events \<Rightarrow> World \<Rightarrow> World" where
  "triggerEvent name w = effect (DispatchEvent name) w"

definition onload :: "World \<Rightarrow> World" where
  "onload w = triggerEvent AstroLoad w"

text \<open>
  \<open>throttle(cb, delay)\<close>: the returned function, with its closure variable \<open>wait\<close> kept
  in the world. The timeout callback is the task \<open>ThrottleTimer\<close>.
\<close>

definition throttle :: "(World \<Rightarrow> World) \<Rightarrow> nat \<Rightarrow> World \<Rightarrow> World" where
  "throttle cb delay w =
     (if throttle_wait w then w
      else suspend ThrottleTimer (effect (SetTimeout delay) ((cb w)\<lparr>throttle_wait := True\<rparr>)))"

definition getFallback :: "World \<Rightarrow> string option" where
  "getFallback w =
     (case docQuerySelector (attrIs ''name'' ''astro-view-transitions-fallback'') (document w) of
        Some el \<Rightarrow> getAttribute el ''content''
      | None \<Rightarrow> Some ''animate'')"

subsection \<open>Re-running scripts\<close>

text \<open>
  The fresh element built for one script: \<open>innerHTML\<close> copied, then every attribute set
  in order.
\<close>

definition copyScript :: "Element \<Rightarrow> Element" where
  "copyScript script =
     Element ''script'' (foldl (\<lambda>as (n, v). setAttr n v as) [] (attributes script))
       (innerHTML script) []"

text \<open>The number of promises the attribute loop chains onto \<open>wait\<close> for one script.\<close>

definition srcCount :: "Element \<Rightarrow> nat" where
  "srcCount script = length (filter (\<lambda>(n, v). n = ''src'') (attributes script))"

text \<open>
  The loop of \<open>runScripts\<close> over \<open>Array.from(document.scripts)\<close>. It has no \<open>await\<close>:
  each script is replaced by its copy, which inserts and thereby starts the copy, and the
  loop moves on. The second component counts the \<open>load\<close> events the returned promise
  \<open>wait\<close> is chained on.
\<close>

fun runScriptsLoop :: "Element list \<Rightarrow> World \<Rightarrow> World \<times> nat" where
  "runScriptsLoop [] w = (w, 0)"
| "runScriptsLoop (script # rest) w =
     (let s = copyScript script;
          w1 = effect (InsertScript s) (w\<lparr>document := docReplaceWith script s (document w)\<rparr>);
          (w2, n) = runScriptsLoop rest w1
      in (w2, srcCount script + n))"

definition runScripts :: "World \<Rightarrow> World \<times> nat" where
  "runScripts w = runScriptsLoop (scripts (document w)) w"

subsection \<open>Reconciliation\<close>

text \<open>
  \<open>persistedHeadElement\<close>, closed over the incoming document's head. Either call of
  \<open>querySelector\<close> throws when the text put into its selector is not plain.
\<close>

definition persistedHeadElement :: "Element list \<Rightarrow> Element \<Rightarrow> DOMException + Element option" where
  "persistedHeadElement docHead el =
     (let id = getAttribute el PERSIST_ATTR;
          newEl = (case id of
                     None \<Rightarrow> Inr None
                   | Some i \<Rightarrow>
                       if i = [] then Inr None
                       else if \<not> cssPlain i then Inl SyntaxError
                       else Inr (querySelector (attrIs PERSIST_ATTR i) docHead))
      in case newEl of
           Inl e \<Rightarrow> Inl e
         | Inr (Some n) \<Rightarrow> Inr (Some n)
         | Inr None \<Rightarrow>
             if linkStylesheet el
             then (let h = interpolate (getAttribute el ''href'')
                   in if \<not> cssPlain h then Inl SyntaxError
                      else Inr (querySelector (linkStylesheetHref h) docHead))
             else Inr None)"

text \<open>
  The head loop of \<open>swap\<close> over \<open>Array.from(document.head.children)\<close>: the result is the
  live head children that stay and what is left of the incoming head, and the exception
  if one ended the loop; the element at which it was thrown and those after it are then
  still in the live head.
\<close>

fun swapHead ::
  "Element list \<Rightarrow> Element list \<Rightarrow> (Element list \<times> Element list) \<times> DOMException option" where
  "swapHead [] docHead = (([], docHead), None)"
| "swapHead (el # els) docHead =
     (case persistedHeadElement docHead el of
        Inl e \<Rightarrow> ((el # els, docHead), Some e)
      | Inr (Some newEl) \<Rightarrow>
          (let ((kept, left), x) = swapHead els (remove newEl docHead) in ((el # kept, left), x))
      | Inr None \<Rightarrow> swapHead els docHead)"

text \<open>
  The body pass of \<open>swap\<close> over \<open>oldBody.querySelectorAll('[data-astro-transition-persist]')\<close>.
  The old element is put in place of its counterpart as a value; when a persisted element
  lies inside another persisted element the DOM would move the inner node out of the
  outer one, which this value model does not follow.
\<close>

fun persistBody :: "Element list \<Rightarrow> Document \<Rightarrow> Document \<times> DOMException option" where
  "persistBody [] d = (d, None)"
| "persistBody (el # els) d =
     (let id = interpolate (getAttribute el PERSIST_ATTR)
      in if \<not> cssPlain id then (d, Some SyntaxError)
         else persistBody els
                (case docQuerySelector (attrIs PERSIST_ATTR id) d of
                   Some newEl \<Rightarrow> docReplaceWith newEl el d
                 | None \<Rightarrow> d))"

definition scrollTo :: "rat \<Rightarrow> rat \<Rightarrow> World \<Rightarrow> World" where
  "scrollTo x y w = effect (ScrollTo x y) (w\<lparr>window_scrollY := y\<rparr>)"

text \<open>
  \<open>swap\<close>, in its two parts (\<open>// Swap head\<close> and \<open>// Move over persist stuff in the
  body\<close>) and as a whole. An exception in a part ends \<open>swap\<close> there.
\<close>

definition swap_head :: "Document \<Rightarrow> World \<Rightarrow> World \<times> DOMException option" where
  "swap_head doc w =
     (let ((kept, left), x) = swapHead (head (document w)) (head doc)
      in case x of
           Some e \<Rightarrow> (w\<lparr>document := (document w)\<lparr>head := kept\<rparr>\<rparr>, Some e)
         | None \<Rightarrow> (effect SwapHead (w\<lparr>document := (document w)\<lparr>head := kept @ left\<rparr>\<rparr>), None))"

definition swap_body :: "Document \<Rightarrow> World \<Rightarrow> World \<times> DOMException option" where
  "swap_body doc w =
     (let oldBody = body (document w);
          w1 = effect ReplaceBody (w\<lparr>document := (document w)\<lparr>body := body doc\<rparr>\<rparr>);
          (d, x) = persistBody (querySelectorAll (hasAttr PERSIST_ATTR) (children oldBody))
                     (document w1)
      in (w1\<lparr>document := d\<rparr>, x))"

definition swap :: "Document \<Rightarrow> State option \<Rightarrow> World \<Rightarrow> World \<times> DOMException option" where
  "swap doc state w =
     (case swap_head doc w of
        (w1, Some e) \<Rightarrow> (w1, Some e)
      | (w1, None) \<Rightarrow>
          (case swap_body doc w1 of
             (w2, Some e) \<Rightarrow> (w2, Some e)
           | (w2, None) \<Rightarrow>
               (let w3 = (case state of
                            None \<Rightarrow> w2
                          | Some st \<Rightarrow>
                              (case scrollY st of None \<Rightarrow> w2 | Some y \<Rightarrow> scrollTo 0 y w2))
                in (triggerEvent AstroBeforeload w3, None))))"

text \<open>\<open>doc.documentElement.dataset.astroTransition = dir\<close>\<close>

definition tagDirection :: "Direction \<Rightarrow> Document \<Rightarrow> Document" where
  "tagDirection dir doc =
     doc\<lparr>htmlAttrs := setAttr ''data-astro-transition''
            (case dir of Forward \<Rightarrow> ''forward'' | Back \<Rightarrow> ''back'') (htmlAttrs doc)\<rparr>"

definition appendToHead :: "Element \<Rightarrow> World \<Rightarrow> World" where
  "appendToHead c w =
     effect (AppendToHead c) (w\<lparr>document := (document w)\<lparr>head := head (document w) @ [c]\<rparr>\<rparr>)"

text \<open>The preload link built for an incoming stylesheet link.\<close>

definition preloadLink :: "Element \<Rightarrow> Element" where
  "preloadLink el =
     Element ''link''
       [(''rel'', ''preload''), (''as'', ''style''), (''href'', interpolate (getAttribute el ''href''))]
       [] []"

text \<open>
  The selector list
  \<^verbatim>\<open>[data-astro-transition-persist="${el.getAttribute(PERSIST_ATTR)}"], link[rel=stylesheet]\<close>
  of the preload loop: an element matches when it matches either member.
\<close>

definition alreadyOnPage :: "Element \<Rightarrow> Element \<Rightarrow> bool" where
  "alreadyOnPage el x =
     (attrIs PERSIST_ATTR (interpolate (getAttribute el PERSIST_ATTR)) x \<or> linkStylesheet x)"

text \<open>
  The preload loop of \<open>updateDOM\<close> over \<open>doc.querySelectorAll('head link[rel=stylesheet]')\<close>;
  the second component is \<open>links.length\<close>. The loop ends at the first element whose
  persistence identifier is not plain, where \<open>querySelector\<close> throws; \<open>preloadThrows\<close>
  tells whether there is one.
\<close>

fun preloadLinks :: "Element list \<Rightarrow> World \<Rightarrow> World \<times> nat" where
  "preloadLinks [] w = (w, 0)"
| "preloadLinks (el # els) w =
     (if \<not> cssPlain (interpolate (getAttribute el PERSIST_ATTR)) then (w, 0)
      else if docQuerySelector (alreadyOnPage el) (document w) = None
      then (let (w1, n) = preloadLinks els (appendToHead (preloadLink el) w) in (w1, Suc n))
      else preloadLinks els w)"

definition preloadThrows :: "Element list \<Rightarrow> bool" where
  "preloadThrows els = list_ex (\<lambda>el. \<not> cssPlain (interpolate (getAttribute el PERSIST_ATTR))) els"

subsection \<open>The transition driver\<close>

text \<open>
  The \<open>finally\<close> block of \<open>navigate\<close>, entered when \<open>await finished\<close> returns. The promise
  returned by \<open>runScripts\<close> is already settled when no script has a \<open>src\<close>.
\<close>

definition navigate_finally :: "World \<Rightarrow> World" where
  "navigate_finally w =
     (let w1 = w\<lparr>document := (document w)\<lparr>htmlAttrs :=
                  removeAttr ''data-astro-transition'' (htmlAttrs (document w))\<rparr>\<rparr>;
          (w2, n) = runScripts w1
      in if n = 0 then onload w2 else suspend (AwaitScripts n) w2)"

text \<open>
  The promise returned by \<open>updateDOM\<close> settles. On the fallback path that promise is
  \<open>finished\<close>, so \<open>navigate\<close> continues; inside a native transition the browser goes on
  with the transition and settles \<open>finished\<close> later. When \<open>updateDOM\<close> was left by an
  exception its promise is rejected, and so is \<open>finished\<close> on either path: \<open>await
  finished\<close> throws, the \<open>finally\<close> block runs, and the exception leaves \<open>navigate\<close>,
  whose promise nothing awaits.
\<close>

definition updateDOM_returned :: "bool \<Rightarrow> DOMException option \<Rightarrow> World \<Rightarrow> World" where
  "updateDOM_returned native x w =
     (if native \<and> x = None then suspend AwaitFinished w else navigate_finally w)"

definition setFallbackMarker :: "string \<Rightarrow> World \<Rightarrow> World" where
  "setFallbackMarker v w =
     w\<lparr>document := (document w)\<lparr>htmlAttrs :=
          setAttr ''data-astro-transition-fallback'' v (htmlAttrs (document w))\<rparr>\<rparr>"

text \<open>
  \<open>fallbackSwap\<close>; its listener and timeout are gone with the task that held them. An
  exception in \<open>swap\<close> leaves the callback before the marker is set.
\<close>

definition fallbackSwap :: "Document \<Rightarrow> State option \<Rightarrow> World \<Rightarrow> World" where
  "fallbackSwap doc state w =
     (case swap doc state w of
        (w1, None) \<Rightarrow> setFallbackMarker ''new'' w1
      | (w1, Some e) \<Rightarrow> w1)"

text \<open>
  \<open>updateDOM\<close> from \<open>if (fallback === 'animate')\<close> on. The \<open>animate\<close> branch registers its
  listeners and the timeout and returns: the swap is left to \<open>fallbackSwap\<close>.
\<close>

definition updateDOM_transition ::
  "bool \<Rightarrow> Document \<Rightarrow> State option \<Rightarrow> string option \<Rightarrow> World \<Rightarrow> World" where
  "updateDOM_transition native doc state fallback w =
     (if fallback = Some ''animate'' then
        updateDOM_returned native None
          (suspend (FallbackSwap False True doc state)
             (effect (SetTimeout 0) (setFallbackMarker ''old'' w)))
      else (case swap doc state w of (w1, x) \<Rightarrow> updateDOM_returned native x w1))"

text \<open>\<open>updateDOM\<close> up to \<open>links.length && (await Promise.all(links))\<close>.\<close>

definition updateDOM ::
  "bool \<Rightarrow> Direction \<Rightarrow> Document \<Rightarrow> State option \<Rightarrow> string option \<Rightarrow> World \<Rightarrow> World" where
  "updateDOM native dir html state fallback w =
     (let doc = tagDirection dir html;
          els = querySelectorAll linkStylesheet (head doc);
          (w1, n) = preloadLinks els w
      in if preloadThrows els then updateDOM_returned native (Some SyntaxError) w1
         else if n \<noteq> 0 then suspend (AwaitLinks native dir doc state fallback n) w1
         else updateDOM_transition native doc state fallback w1)"

text \<open>
  \<open>navigate(dir, href, state)\<close> up to \<open>await getHTML(href)\<close>, and from there on; the
  parameter \<open>href\<close> is called \<open>url\<close> here.
\<close>

definition navigate :: "Direction \<Rightarrow> string \<Rightarrow> State option \<Rightarrow> World \<Rightarrow> World" where
  "navigate dir url state w = suspend (AwaitGetHTML dir url state) (effect (Fetch url) w)"

definition navigate_fetched ::
  "Direction \<Rightarrow> string \<Rightarrow> State option \<Rightarrow> bool \<Rightarrow> Document \<Rightarrow> World \<Rightarrow> World" where
  "navigate_fetched dir url state ok html w =
     (if \<not> ok then effect (LocationAssign url) w
      else if supportsViewTransitions w then suspend (ViewTransitionUpdate dir html state) w
      else updateDOM False dir html state (getFallback w) w)"

text \<open>
  A pending task receives what it waits for; \<open>None\<close> when the task does not wait for
  that. A rejected \<open>fetch\<close> rejects \<open>navigate\<close>, which nothing catches.
\<close>

definition resumeTask :: "Task \<Rightarrow> Payload \<Rightarrow> World \<Rightarrow> World option" where
  "resumeTask t p w =
     (case t of
        AwaitGetHTML dir url state \<Rightarrow>
          (case p of
             Response ok html \<Rightarrow> Some (navigate_fetched dir url state ok html w)
           | NetworkError \<Rightarrow> Some w
           | _ \<Rightarrow> None)
      | ViewTransitionUpdate dir html state \<Rightarrow>
          (case p of
             UpdateCallback \<Rightarrow> Some (updateDOM True dir html state None w)
           | _ \<Rightarrow> None)
      | AwaitLinks native dir doc state fallback k \<Rightarrow>
          (case p of
             Settled \<Rightarrow>
               (case k of
                  0 \<Rightarrow> None
                | Suc n \<Rightarrow>
                    Some (if n = 0 then updateDOM_transition native doc state fallback w
                          else suspend (AwaitLinks native dir doc state fallback n) w))
           | _ \<Rightarrow> None)
      | AwaitFinished \<Rightarrow>
          (case p of TransitionFinished \<Rightarrow> Some (navigate_finally w) | _ \<Rightarrow> None)
      | FallbackSwap isAnimating timer doc state \<Rightarrow>
          (case p of
             AnimationStart \<Rightarrow> Some (suspend (FallbackSwap True timer doc state) w)
           | AnimationEnd \<Rightarrow> Some (fallbackSwap doc state w)
           | TimerFired \<Rightarrow>
               if timer then
                 Some (if \<not> isAnimating then fallbackSwap doc state w
                       else suspend (FallbackSwap isAnimating False doc state) w)
               else None
           | _ \<Rightarrow> None)
      | AwaitScripts k \<Rightarrow>
          (case p of
             ScriptLoad \<Rightarrow>
               (case k of
                  0 \<Rightarrow> None
                | Suc n \<Rightarrow> Some (if n = 0 then onload w else suspend (AwaitScripts n) w))
           | _ \<Rightarrow> None)
      | ThrottleTimer \<Rightarrow>
          (case p of TimerFired \<Rightarrow> Some (w\<lparr>throttle_wait := False\<rparr>) | _ \<Rightarrow> None))"

definition resume :: "nat \<Rightarrow> Payload \<Rightarrow> World \<Rightarrow> World" where
  "resume i p w =
     (if i < length (pending w) then
        (case resumeTask (pending w ! i) p
                (w\<lparr>pending := take i (pending w) @ drop (Suc i) (pending w)\<rparr>) of
           Some w1 \<Rightarrow> w1
         | None \<Rightarrow> w)
      else w)"

subsection \<open>Prefetching\<close>

text \<open>\<open>/(2|3)g/.test(s)\<close>\<close>

fun test_2g3g :: "string \<Rightarrow> bool" where
  "test_2g3g (a # b # cs) =
     (((a = CHR ''2'' \<or> a = CHR ''3'') \<and> b = CHR ''g'') \<or> test_2g3g (b # cs))"
| "test_2g3g _ = False"

text \<open>
  \<open>maybePrefetch\<close>. The \<open>pathname\<close> of a URL is percent-encoded and therefore plain;
  for a text that is not, the exception of \<open>querySelector\<close> leaves the listener.
\<close>

definition maybePrefetch :: "string \<Rightarrow> World \<Rightarrow> World" where
  "maybePrefetch path w =
     (if \<not> cssPlain path then w
      else if docQuerySelector (linkPrefetchHref path) (document w) \<noteq> None then w
      else if (case connection w of
                 None \<Rightarrow> False
               | Some conn \<Rightarrow>
                   saveData conn \<or>
                   test_2g3g (case effectiveType conn of None \<Rightarrow> [] | Some t \<Rightarrow> t))
      then w
      else appendToHead (Element ''link'' [(''rel'', ''prefetch''), (''href'', path)] [] []) w)"

subsection \<open>The listeners and the top level of the script\<close>

text \<open>The condition under which the click listener takes the click over.\<close>

definition intercepts :: "Anchor \<Rightarrow> MouseEvent \<Rightarrow> World \<Rightarrow> bool" where
  "intercepts l ev w =
     (href l \<noteq> [] \<and> (target l = [] \<or> target l = ''_self'') \<and>
      origin l = origin (location w) \<and> hash l = [] \<and> button ev = 0 \<and>
      \<not> metaKey ev \<and> \<not> ctrlKey ev \<and> \<not> altKey ev \<and> \<not> shiftKey ev \<and>
      \<not> defaultPrevented ev \<and> transitionEnabledOnThisPage w)"

definition click_listener :: "MouseEvent \<Rightarrow> World \<Rightarrow> World" where
  "click_listener ev w =
     (case link ev of
        None \<Rightarrow> w
      | Some l \<Rightarrow>
          if intercepts l ev w
          then
            (let w1 = effect PreventDefault w;
                 w2 = navigate Forward (href l)
                        (Some \<lparr>index = Some (currentHistoryIndex w1), scrollY = Some 0\<rparr>) w1;
                 w3 = w2\<lparr>currentHistoryIndex := jsAdd (currentHistoryIndex w2) 1\<rparr>;
                 newState = \<lparr>index = Some (currentHistoryIndex w3),
                             scrollY = Some (window_scrollY w3)\<rparr>;
                 w4 = persistState \<lparr>index = Some (jsSub (currentHistoryIndex w3) 1),
                                    scrollY = Some (window_scrollY w3)\<rparr> w3
             in effect (HistoryPushState newState (href l))
                  (w4\<lparr>history := pushState newState (URL.truncate l) (history w4)\<rparr>))
          else w)"

definition popstate_listener :: "State option \<Rightarrow> World \<Rightarrow> World" where
  "popstate_listener ev_state w =
     (if \<not> transitionEnabledOnThisPage w then effect LocationReload w
      else if ev_state = None then
        effect PreventDefault
          (persistState \<lparr>index = Some (currentHistoryIndex w), scrollY = Some (window_scrollY w)\<rparr> w)
      else
        (let state = history_state w;
             nextIndex = (case state of
                            None \<Rightarrow> jsAdd (currentHistoryIndex w) 1
                          | Some st \<Rightarrow>
                              (case index st of
                                 None \<Rightarrow> jsAdd (currentHistoryIndex w) 1
                               | Some i \<Rightarrow> i));
             direction = (if nextIndex > currentHistoryIndex w then Forward else Back);
             w1 = navigate direction (href (location w)) state w
         in w1\<lparr>currentHistoryIndex := nextIndex\<rparr>))"

text \<open>
  The listener of \<open>mouseenter\<close>, \<open>touchstart\<close> and \<open>focus\<close>; its argument is \<open>ev.target\<close>
  when that is an \<open>HTMLAnchorElement\<close>.
\<close>

definition prefetch_listener :: "Anchor option \<Rightarrow> World \<Rightarrow> World" where
  "prefetch_listener ev_target w =
     (case ev_target of
        None \<Rightarrow> w
      | Some el \<Rightarrow>
          if origin el = origin (location w) \<and> pathname el \<noteq> pathname (location w) \<and>
             transitionEnabledOnThisPage w
          then maybePrefetch (pathname el) w
          else w)"

text \<open>The callback handed to \<open>throttle\<close>, and the scroll listener built from it.\<close>

definition scroll_callback :: "World \<Rightarrow> World" where
  "scroll_callback w =
     (case history_state w of
        None \<Rightarrow> w
      | Some st \<Rightarrow> persistState (st\<lparr>scrollY := Some (window_scrollY w)\<rparr>) w)"

definition scroll_listener :: "World \<Rightarrow> World" where
  "scroll_listener w = throttle scroll_callback 300 w"

text \<open>
  The top level of the script, run once when the page loads. \<open>supportsViewTransitions\<close>
  (\<open>!!document.startViewTransition\<close>) is a field of the world.
\<close>

definition main :: "World \<Rightarrow> World" where
  "main w =
     (let w1 = w\<lparr>currentHistoryIndex :=
                 (case history_state w of
                    None \<Rightarrow> 0
                  | Some st \<Rightarrow> (case index st of None \<Rightarrow> 0 | Some i \<Rightarrow> if i = 0 then 0 else i))\<rparr>;
          w2 = (if history_state w1 = None
                then persistState \<lparr>index = Some (currentHistoryIndex w1), scrollY = Some 0\<rparr> w1
                else w1)
      in if supportsViewTransitions w2 \<or> getFallback w2 \<noteq> Some ''none''
         then w2\<lparr>listeners := listeners w2 @
                   [OnClick, OnPopstate, OnMouseenter, OnTouchstart, OnFocus, OnLoad, OnScroll]\<rparr>
         else w2)"

subsection \<open>The browser\<close>

text \<open>
  What the browser can do to the page: user input and history traversal, which reach the
  script only through a listener it has installed, and the delivery of what a pending
  task waits for. \<open>Popstate delta\<close> is a traversal by the back or forward button: the
  browser moves to the entry first and then fires the event with that entry's state
  (at either end of the history the entry stays the same).
\<close>

datatype BrowserEvent =
    Click MouseEvent
  | Popstate int
  | Mouseenter "Anchor option"
  | Touchstart "Anchor option"
  | Focus "Anchor option"
  | Load
  | Scroll rat
  | Resume nat Payload

fun dispatch :: "BrowserEvent \<Rightarrow> World \<Rightarrow> World" where
  "dispatch (Click ev) w = (if OnClick \<in> set (listeners w) then click_listener ev w else w)"
| "dispatch (Popstate delta) w =
     (let w1 = w\<lparr>history := traverse delta (history w)\<rparr>
      in if OnPopstate \<in> set (listeners w1) then popstate_listener (history_state w1) w1 else w1)"
| "dispatch (Mouseenter t) w =
     (if OnMouseenter \<in> set (listeners w) then prefetch_listener t w else w)"
| "dispatch (Touchstart t) w =
     (if OnTouchstart \<in> set (listeners w) then prefetch_listener t w else w)"
| "dispatch (Focus t) w = (if OnFocus \<in> set (listeners w) then prefetch_listener t w else w)"
| "dispatch Load w = (if OnLoad \<in> set (listeners w) then onload w else w)"
| "dispatch (Scroll y) w =
     (let w1 = w\<lparr>window_scrollY := y\<rparr>
      in if OnScroll \<in> set (listeners w1) then scroll_listener w1 else w1)"
| "dispatch (Resume i p) w = resume i p w"

fun run :: "BrowserEvent list \<Rightarrow> World \<Rightarrow> World" where
  "run [] w = w"
| "run (ev # evs) w = run evs (dispatch ev w)"

subsection \<open>Measures and sample pages\<close>

text \<open>The number of history writes (\<open>replaceState\<close> or \<open>pushState\<close>) in the log.\<close>

definition historyWrites :: "World \<Rightarrow> nat" where
  "historyWrites w =
     length (filter (\<lambda>e. case e of HistoryReplaceState st \<Rightarrow> True
                            | HistoryPushState st u \<Rightarrow> True | _ \<Rightarrow> False) (effects w))"

text \<open>What a selector of the script can see of an element: its tag and attributes.\<close>

definition shallow :: "Element \<Rightarrow> string \<times> (string \<times> string) list" where
  "shallow el = (tagName el, attributes el)"

text \<open>
  The texts that \<open>persistedHeadElement\<close> puts into selectors for an element are plain.
\<close>

definition plainSelectors :: "Element \<Rightarrow> bool" where
  "plainSelectors el =
     (cssPlain (interpolate (getAttribute el PERSIST_ATTR)) \<and>
      cssPlain (interpolate (getAttribute el ''href'')))"

text \<open>
  Equivalence of a live head element and an incoming one, in the words of the
  specification: the two carry the same (non-empty) persistence identifier, or both are
  stylesheet links and the \<open>href\<close> of the incoming one is that of the live one. This
  definition is not part of the script; the head merge is compared with it below. A
  stylesheet link is a \<open>link\<close> element whose \<open>rel\<close> is \<open>stylesheet\<close> in any case of
  letters, and a live link without \<open>href\<close> is looked up as \<open>null\<close>, as the template
  does.
\<close>

definition stylesheetElement :: "Element \<Rightarrow> bool" where
  "stylesheetElement el =
     (tagName el = ''link'' \<and>
      (case getAttribute el ''rel'' of
         None \<Rightarrow> False
       | Some r \<Rightarrow> map asciiLower r = ''stylesheet''))"

definition equivalent :: "Element \<Rightarrow> Element \<Rightarrow> bool" where
  "equivalent el n =
     ((case getAttribute el PERSIST_ATTR of
         None \<Rightarrow> False
       | Some i \<Rightarrow> i \<noteq> [] \<and> getAttribute n PERSIST_ATTR = Some i) \<or>
      (stylesheetElement el \<and> stylesheetElement n \<and>
       getAttribute n ''href'' = Some (interpolate (getAttribute el ''href''))))"

definition metaTag :: "string \<Rightarrow> string \<Rightarrow> Element" where
  "metaTag n c = Element ''meta'' [(''name'', n), (''content'', c)] [] []"

definition stylesheetLink :: "string \<Rightarrow> Element" where
  "stylesheetLink h = Element ''link'' [(''rel'', ''stylesheet''), (''href'', h)] [] []"

definition persistedStylesheetLink :: "string \<Rightarrow> string \<Rightarrow> Element" where
  "persistedStylesheetLink i h =
     Element ''link''
       [(''rel'', ''stylesheet''), (''href'', h), (''data-astro-transition-persist'', i)] [] []"

definition capitalStylesheetLink :: "string \<Rightarrow> Element" where
  "capitalStylesheetLink h = Element ''link'' [(''rel'', ''Stylesheet''), (''href'', h)] [] []"

definition themeStyle :: "string \<Rightarrow> Element" where
  "themeStyle css = Element ''style'' [(''data-astro-transition-persist'', ''theme'')] css []"

definition inlineScript :: "string \<Rightarrow> Element" where
  "inlineScript code = Element ''script'' [] code []"


definition siteURL :: "string \<Rightarrow> URL" where
  "siteURL p = \<lparr>href = ''https://example.org'' @ p, origin = ''https://example.org'',
                pathname = p, hash = []\<rparr>"

definition siteAnchor :: "string \<Rightarrow> Anchor" where
  "siteAnchor p = \<lparr>href = ''https://example.org'' @ p, origin = ''https://example.org'',
                   pathname = p, hash = [], target = []\<rparr>"

definition leftClick :: "string \<Rightarrow> MouseEvent" where
  "leftClick p = \<lparr>link = Some (siteAnchor p), button = 0, metaKey = False, ctrlKey = False,
                  altKey = False, shiftKey = False, defaultPrevented = False\<rparr>"

text \<open>
  A page of the site that uses the component with the given \<open>fallback\<close> property, with
  one stylesheet and the given scripts at the end of its body.
\<close>

definition sitePage :: "string \<Rightarrow> string \<Rightarrow> string \<Rightarrow> Element list \<Rightarrow> Document" where
  "sitePage fallback css title ss =
     \<lparr>htmlAttrs = [], headAttrs = [],
      head = [metaTag ''astro-view-transitions-enabled'' ''true'',
              metaTag ''astro-view-transitions-fallback'' fallback,
              stylesheetLink css],
      body = Element ''body'' [] [] (Element ''h1'' [] title [] # ss)\<rparr>"

text \<open>A page that does not use the component.\<close>

definition plainPage :: Document where
  "plainPage =
     \<lparr>htmlAttrs = [], headAttrs = [], head = [stylesheetLink ''/plain.css''],
      body = Element ''body'' [] [] [Element ''h1'' [] ''Plain'' []]\<rparr>"

text \<open>A page of the site that has no stylesheet.\<close>

definition unstyledPage :: "string \<Rightarrow> Document" where
  "unstyledPage fallback =
     \<lparr>htmlAttrs = [], headAttrs = [],
      head = [metaTag ''astro-view-transitions-enabled'' ''true'',
              metaTag ''astro-view-transitions-fallback'' fallback],
      body = Element ''body'' [] [] [Element ''h1'' [] ''Home'' []]\<rparr>"

text \<open>
  The world when a document has just been loaded at \<open>/\<close>, scrolled to \<open>y\<close>, before the
  script has run; and after it has run.
\<close>

definition arrived :: "Document \<Rightarrow> bool \<Rightarrow> rat \<Rightarrow> World" where
  "arrived d native y =
     \<lparr>document = d,
      history = \<lparr>past = [], current = (None, siteURL ''/''), future = []\<rparr>,
      currentHistoryIndex = 0, window_scrollY = y, supportsViewTransitions = native,
      connection = None, throttle_wait = False, listeners = [], pending = [], effects = []\<rparr>"

definition started :: "Document \<Rightarrow> bool \<Rightarrow> rat \<Rightarrow> World" where
  "started d native y = main (arrived d native y)"

text \<open>
  The world after the browser has traversed to a history entry that holds the state \<open>st\<close>,
  while the script's index is \<open>i\<close>; and the world of a script that was started on a page
  of the site and now finds itself on a page without the component.
\<close>

definition traversedTo :: "Document \<Rightarrow> int \<Rightarrow> State \<Rightarrow> World" where
  "traversedTo d i st =
     (started d False 0)\<lparr>currentHistoryIndex := i,
        history := \<lparr>past = [], current = (Some st, siteURL ''/b''), future = []\<rparr>\<rparr>"

definition onPlainPage :: World where
  "onPlainPage = (started (sitePage ''animate'' ''/a.css'' ''Home'' []) False 0)\<lparr>document := plainPage\<rparr>"

section \<open>Properties\<close>

subsection \<open>Auxiliary facts\<close>

lemma enabled_history [simp]:
  "transitionEnabledOnThisPage (w\<lparr>history := h\<rparr>) = transitionEnabledOnThisPage w"
  by (simp add: transitionEnabledOnThisPage_def)

lemma scroll_dropped:
  "throttle_wait w \<Longrightarrow> OnScroll \<in> set (listeners w) \<Longrightarrow>
   run (map Scroll ys) w = w\<lparr>window_scrollY := last (window_scrollY w # ys)\<rparr>"
proof (induction ys arbitrary: w)
  case Nil
  then show ?case by simp
next
  case (Cons y ys)
  have "dispatch (Scroll y) w = w\<lparr>window_scrollY := y\<rparr>"
    using Cons.prems by (simp add: scroll_listener_def throttle_def Let_def)
  then show ?case using Cons.IH [of "w\<lparr>window_scrollY := y\<rparr>"] Cons.prems by simp
qed

lemma scroll_callback_keeps:
  "throttle_wait (scroll_callback w) = throttle_wait w"
  "listeners (scroll_callback w) = listeners w"
  "pending (scroll_callback w) = pending w"
  "window_scrollY (scroll_callback w) = window_scrollY w"
  by (simp_all add: scroll_callback_def persistState_def effect_def split: option.splits)

lemma scroll_callback_writes:
  "historyWrites (scroll_callback w) \<le> historyWrites w + 1"
  by (simp add: scroll_callback_def persistState_def effect_def historyWrites_def split: option.splits)

lemma scroll_leading:
  assumes "OnScroll \<in> set (listeners w)" and "\<not> throttle_wait w"
  shows "dispatch (Scroll y) w =
           suspend ThrottleTimer (effect (SetTimeout 300)
             ((scroll_callback (w\<lparr>window_scrollY := y\<rparr>))\<lparr>throttle_wait := True\<rparr>))"
  using assms by (simp add: scroll_listener_def throttle_def Let_def)

lemma dispatch_no_listeners:
  assumes "listeners w = []" and "pending w = []"
  shows "listeners (dispatch ev w) = [] \<and> pending (dispatch ev w) = []
       \<and> effects (dispatch ev w) = effects w \<and> document (dispatch ev w) = document w"
  using assms by (cases ev) (simp_all add: resume_def Let_def del: traverse.simps)

lemma run_no_listeners:
  "listeners w = [] \<Longrightarrow> pending w = [] \<Longrightarrow>
   listeners (run evs w) = [] \<and> pending (run evs w) = []
     \<and> effects (run evs w) = effects w \<and> document (run evs w) = document w"
proof (induction evs arbitrary: w)
  case Nil
  then show ?case by simp
next
  case (Cons ev evs)
  from dispatch_no_listeners [OF Cons.prems, of ev] Cons.IH [of "dispatch ev w"]
  show ?case by (simp del: dispatch.simps)
qed

lemma getFallback_document:
  "document w' = document w \<Longrightarrow> getFallback w' = getFallback w"
  by (simp add: getFallback_def)

lemma jsAdd_safe:
  assumes "\<bar>n\<bar> < 2 ^ 53"
  shows "jsAdd n 1 = n + 1"
proof -
  from assms have "\<bar>n + 1\<bar> \<le> 2 ^ 53" by arith
  then show ?thesis by (simp only: jsAdd_def toDouble_def if_True)
qed

lemma jsSub_safe:
  assumes "\<bar>n\<bar> < 2 ^ 53"
  shows "jsSub (n + 1) 1 = n"
proof -
  from assms have "\<bar>n + 1 - 1\<bar> \<le> 2 ^ 53" by arith
  then have "toDouble (n + 1 - 1) = n + 1 - 1" by (simp only: toDouble_def if_True)
  then show ?thesis by (simp add: jsSub_def)
qed







lemma shallow_remove:
  "set (map shallow (descendants (remove x forest))) \<subseteq> set (map shallow (descendants forest))"
  by (induction x forest rule: remove.induct) (auto simp: shallow_def)

lemma equivalent_shallow:
  assumes "shallow a = shallow b"
  shows "equivalent el a = equivalent el b"
proof -
  from assms have "tagName a = tagName b" and "\<And>k. getAttribute a k = getAttribute b k"
    by (simp_all add: shallow_def getAttribute_def)
  then show ?thesis by (simp add: equivalent_def stylesheetElement_def split: option.splits)
qed

lemma equivalent_remove:
  assumes "n \<in> set (descendants (remove x forest))" and "equivalent el n"
  shows "\<exists>m \<in> set (descendants forest). equivalent el m"
proof -
  from assms(1) have "shallow n \<in> set (map shallow (descendants forest))"
    using shallow_remove [of x forest] by auto
  then obtain m where "m \<in> set (descendants forest)" and "shallow m = shallow n" by auto
  with assms(2) equivalent_shallow [of m n el] show ?thesis by blast
qed

lemma linkStylesheet_stylesheetElement: "linkStylesheet el = stylesheetElement el"
  by (simp add: linkStylesheet_def stylesheetElement_def attrIsNoCase_def asciiLower_def
      split: option.splits)

lemma querySelector_Some:
  "querySelector sel forest = Some n \<Longrightarrow> n \<in> set (descendants forest) \<and> sel n"
  by (auto simp: querySelector_def find_Some_iff)

lemma querySelector_None:
  "querySelector sel forest = None \<Longrightarrow> n \<in> set (descendants forest) \<Longrightarrow> \<not> sel n"
  by (auto simp: querySelector_def find_None_iff)

lemma persistedHeadElement_sound:
  assumes "persistedHeadElement docHead el = Inr (Some n)"
  shows "n \<in> set (descendants docHead) \<and> equivalent el n"
proof (cases "\<exists>i. getAttribute el PERSIST_ATTR = Some i \<and> i \<noteq> [] \<and> cssPlain i \<and>
                querySelector (attrIs PERSIST_ATTR i) docHead = Some n")
  case True
  then obtain i where i: "getAttribute el PERSIST_ATTR = Some i" "i \<noteq> []"
    "querySelector (attrIs PERSIST_ATTR i) docHead = Some n" by blast
  from querySelector_Some [OF i(3)] i(1,2) show ?thesis
    by (simp add: equivalent_def attrIs_def)
next
  case False
  with assms have h: "linkStylesheet el"
    "querySelector (linkStylesheetHref (interpolate (getAttribute el ''href''))) docHead = Some n"
    by (auto simp: persistedHeadElement_def Let_def split: option.splits if_splits sum.splits)
  from querySelector_Some [OF h(2)] h(1) show ?thesis
    by (simp add: equivalent_def linkStylesheetHref_def attrIs_def
        linkStylesheet_stylesheetElement)
qed

lemma persistedHeadElement_plain:
  assumes "plainSelectors el"
  shows "\<exists>r. persistedHeadElement docHead el = Inr r"
  using assms
  by (auto simp: persistedHeadElement_def plainSelectors_def interpolate_def Let_def
      split: option.splits if_splits sum.splits)

lemma persistedHeadElement_complete:
  assumes "plainSelectors el" and "n \<in> set (descendants docHead)" and "equivalent el n"
  shows "\<exists>m. persistedHeadElement docHead el = Inr (Some m)"
proof (rule ccontr)
  assume "\<not> ?thesis"
  with persistedHeadElement_plain [OF assms(1), of docHead]
  have none: "persistedHeadElement docHead el = Inr None"
    by (metis option.exhaust)
  from assms(3) show False
    unfolding equivalent_def
  proof
    assume "case getAttribute el PERSIST_ATTR of None \<Rightarrow> False
            | Some i \<Rightarrow> i \<noteq> [] \<and> getAttribute n PERSIST_ATTR = Some i"
    then obtain i where i: "getAttribute el PERSIST_ATTR = Some i" "i \<noteq> []"
      "getAttribute n PERSIST_ATTR = Some i" by (auto split: option.splits)
    with none have "querySelector (attrIs PERSIST_ATTR i) docHead = None"
      by (auto simp: persistedHeadElement_def Let_def split: option.splits if_splits sum.splits)
    from querySelector_None [OF this assms(2)] i(3) show False by (simp add: attrIs_def)
  next
    assume e: "stylesheetElement el \<and> stylesheetElement n \<and>
               getAttribute n ''href'' = Some (interpolate (getAttribute el ''href''))"
    then have l: "linkStylesheet el" by (simp add: linkStylesheet_stylesheetElement)
    with none have "querySelector (linkStylesheetHref (interpolate (getAttribute el ''href''))) docHead = None"
      by (auto simp: persistedHeadElement_def Let_def split: option.splits if_splits sum.splits)
    from querySelector_None [OF this assms(2)] e show False
      by (simp add: linkStylesheetHref_def attrIs_def linkStylesheet_stylesheetElement)
  qed
qed

lemma swapHead_plain:
  "\<forall>e \<in> set live. plainSelectors e \<Longrightarrow> snd (swapHead live docHead) = None"
proof (induction live arbitrary: docHead)
  case Nil
  then show ?case by simp
next
  case (Cons a live)
  from Cons.prems have "plainSelectors a" by simp
  from persistedHeadElement_plain [OF this, of docHead] obtain r
    where r: "persistedHeadElement docHead a = Inr r" by blast
  show ?case
  proof (cases r)
    case None
    with r Cons show ?thesis by simp
  next
    case (Some n)
    with r Cons.IH [of "remove n docHead"] Cons.prems show ?thesis
      by (simp add: split_beta)
  qed
qed

lemma swapHead_kept:
  assumes "\<forall>e \<in> set live. plainSelectors e" and "x \<in> set (fst (fst (swapHead live docHead)))"
  shows "\<exists>n \<in> set (descendants docHead). equivalent x n"
  using assms
proof (induction live arbitrary: docHead)
  case Nil
  then show ?case by simp
next
  case (Cons a live)
  from Cons.prems have "plainSelectors a" by simp
  from persistedHeadElement_plain [OF this, of docHead] obtain r
    where r: "persistedHeadElement docHead a = Inr r" by blast
  show ?case
  proof (cases r)
    case None
    with r Cons show ?thesis by simp
  next
    case (Some n)
    with r have rn: "persistedHeadElement docHead a = Inr (Some n)" by simp
    then have "x = a \<or> x \<in> set (fst (fst (swapHead live (remove n docHead))))"
      using Cons.prems by (simp add: split_beta)
    then show ?thesis
    proof
      assume "x = a"
      with persistedHeadElement_sound [OF rn] show ?thesis by blast
    next
      assume "x \<in> set (fst (fst (swapHead live (remove n docHead))))"
      with Cons.IH [of "remove n docHead"] Cons.prems
      obtain m where "m \<in> set (descendants (remove n docHead))" and "equivalent x m" by auto
      then show ?thesis by (rule equivalent_remove)
    qed
  qed
qed

lemma swapHead_append:
  assumes "\<forall>e \<in> set before. plainSelectors e"
  shows "swapHead (before @ rest) docHead =
           (let (kept1, left1) = fst (swapHead before docHead);
                ((kept2, left2), x) = swapHead rest left1
            in ((kept1 @ kept2, left2), x))"
  using assms
proof (induction before arbitrary: docHead)
  case Nil
  then show ?case by (simp add: split_beta)
next
  case (Cons a before)
  from Cons.prems have "plainSelectors a" by simp
  from persistedHeadElement_plain [OF this, of docHead] obtain r
    where r: "persistedHeadElement docHead a = Inr r" by blast
  show ?case
  proof (cases r)
    case None
    with r Cons show ?thesis by simp
  next
    case (Some n)
    with r Cons.IH [of "remove n docHead"] Cons.prems show ?thesis
      by (simp add: split_beta Let_def)
  qed
qed

subsection \<open>History on a link click\<close>

text \<open>
  Claim C1, as stated: an intercepted link click raises the index by one, rewrites the
  outgoing entry with the scroll offset of the moment and the old index, and pushes a new
  entry for the target URL whose state is the new index with \<open>scrollY\<close> 0.

  The last part does not hold. \<open>newState\<close> is built with the shorthand \<open>scrollY\<close>, the
  window's offset at the time of the click; the 0 is in the state handed to \<open>navigate\<close>,
  which scrolls the page after the swap. On a page scrolled to 500 the pushed state
  carries 500.
\<close>
theorem click_scrollY_counterexample:
  "fst (current (history (dispatch (Click (leftClick ''/next''))
          (started (sitePage ''animate'' ''/a.css'' ''Home'' []) False 500)))) =
     Some \<lparr>index = Some 1, scrollY = Some 500\<rparr>
   \<and> fst (current (history (dispatch (Click (leftClick ''/next''))
          (started (sitePage ''animate'' ''/a.css'' ''Home'' []) False 500)))) \<noteq>
     Some \<lparr>index = Some 1, scrollY = Some 0\<rparr>"
  by code_simp

text \<open>
  Claim C1, amended: an intercepted link click on a page whose index is a safe integer
  (below \<open>2^53\<close> in magnitude) raises \<open>currentHistoryIndex\<close> by exactly one, rewrites the
  outgoing entry in place (same URL) with the old index and the scroll offset at the time
  of the click, and pushes a new entry for the target URL whose state is the new index
  with that same scroll offset; the state with \<open>scrollY\<close> 0 is the one given to
  \<open>navigate\<close>. The click fetches the target and touches nothing in the document.
\<close>

theorem click_history_update:
  assumes "link ev = Some l" and "intercepts l ev w" and "\<bar>currentHistoryIndex w\<bar> < 2 ^ 53"
  shows "currentHistoryIndex (click_listener ev w) = currentHistoryIndex w + 1
       \<and> history (click_listener ev w) =
           \<lparr>past = (Some \<lparr>index = Some (currentHistoryIndex w), scrollY = Some (window_scrollY w)\<rparr>,
                     snd (current (history w))) # past (history w),
            current = (Some \<lparr>index = Some (currentHistoryIndex w + 1),
                              scrollY = Some (window_scrollY w)\<rparr>, URL.truncate l),
            future = []\<rparr>
       \<and> effects (click_listener ev w) = effects w @
           [PreventDefault, Fetch (href l),
            HistoryReplaceState \<lparr>index = Some (currentHistoryIndex w), scrollY = Some (window_scrollY w)\<rparr>,
            HistoryPushState \<lparr>index = Some (currentHistoryIndex w + 1),
                              scrollY = Some (window_scrollY w)\<rparr> (href l)]
       \<and> pending (click_listener ev w) = pending w @
           [AwaitGetHTML Forward (href l)
              (Some \<lparr>index = Some (currentHistoryIndex w), scrollY = Some 0\<rparr>)]
       \<and> document (click_listener ev w) = document w"
  using assms
  by (simp add: click_listener_def Let_def navigate_def persistState_def effect_def suspend_def
      pushState_def replaceState_def jsAdd_safe jsSub_safe)

theorem click_history_update_witness:
  "link (leftClick ''/next'') = Some (siteAnchor ''/next'')
   \<and> intercepts (siteAnchor ''/next'') (leftClick ''/next'')
        (started (sitePage ''animate'' ''/a.css'' ''Home'' []) False 500)
   \<and> currentHistoryIndex (click_listener (leftClick ''/next'')
        (started (sitePage ''animate'' ''/a.css'' ''Home'' []) False 500)) = 1
   \<and> effects (click_listener (leftClick ''/next'')
        (started (sitePage ''animate'' ''/a.css'' ''Home'' []) False 500)) =
      [HistoryReplaceState \<lparr>index = Some 0, scrollY = Some 0\<rparr>, PreventDefault,
       Fetch ''https://example.org/next'',
       HistoryReplaceState \<lparr>index = Some 0, scrollY = Some 500\<rparr>,
       HistoryPushState \<lparr>index = Some 1, scrollY = Some 500\<rparr> ''https://example.org/next'']"
proof -
  let ?w = "started (sitePage ''animate'' ''/a.css'' ''Home'' []) False 500"
  have a: "link (leftClick ''/next'') = Some (siteAnchor ''/next'')" by code_simp
  have b: "intercepts (siteAnchor ''/next'') (leftClick ''/next'') ?w" by code_simp
  have c: "currentHistoryIndex ?w = 0" by code_simp
  have d: "window_scrollY ?w = 500" by code_simp
  have e: "effects ?w = [HistoryReplaceState \<lparr>index = Some 0, scrollY = Some 0\<rparr>]" by code_simp
  have f: "href (siteAnchor ''/next'') = ''https://example.org/next''" by code_simp
  have g: "\<bar>currentHistoryIndex ?w\<bar> < 2 ^ 53" by (simp add: c)
  from click_history_update [OF a b g] a b c d e f show ?thesis by simp
qed

text \<open>
  Beyond the safe integers the index does not follow: at \<open>2^53\<close> the increment rounds
  back to \<open>2^53\<close>, and the outgoing entry is rewritten with \<open>2^53 - 1\<close>.
\<close>

lemma click_at_two_to_53:
  "currentHistoryIndex (click_listener (leftClick ''/next'')
      ((started (sitePage ''animate'' ''/a.css'' ''Home'' []) False 0)\<lparr>currentHistoryIndex := 2 ^ 53\<rparr>)) =
     2 ^ 53
   \<and> fst (hd (past (history (click_listener (leftClick ''/next'')
      ((started (sitePage ''animate'' ''/a.css'' ''Home'' []) False 0)\<lparr>currentHistoryIndex := 2 ^ 53\<rparr>))))) =
     Some \<lparr>index = Some (2 ^ 53 - 1), scrollY = Some 0\<rparr>"
  by code_simp

subsection \<open>The stylesheet preload loop\<close>

text \<open>
  Claim C2: for every stylesheet link of the incoming head that is not in the live
  document a preload link is injected and the swap waits for it; one that is already
  there gets none.

  The test in the loop is the selector list
  \<^verbatim>\<open>[data-astro-transition-persist="..."], link[rel=stylesheet]\<close>, whose second member
  has no \<open>href\<close>: any stylesheet link in the live document makes it match. The theorem
  evaluates a navigation from a page with \<open>/a.css\<close> to a page with \<open>/b.css\<close>: the live
  document has no stylesheet link for \<open>/b.css\<close>, yet \<open>links\<close> stays empty, nothing is
  appended to the head, and the swap runs at once.
\<close>

theorem preload_skipped_for_new_stylesheet:
  "docQuerySelector (linkStylesheetHref ''/b.css'')
     (document (started (sitePage ''swap'' ''/a.css'' ''Home'' []) False 0)) = None
   \<and> snd (preloadLinks (querySelectorAll linkStylesheet (head (sitePage ''swap'' ''/b.css'' ''Next'' [])))
        (started (sitePage ''swap'' ''/a.css'' ''Home'' []) False 0)) = 0
   \<and> effects (run [Click (leftClick ''/next''),
                    Resume 0 (Response True (sitePage ''swap'' ''/b.css'' ''Next'' []))]
        (started (sitePage ''swap'' ''/a.css'' ''Home'' []) False 0)) =
      [HistoryReplaceState \<lparr>index = Some 0, scrollY = Some 0\<rparr>, PreventDefault,
       Fetch ''https://example.org/next'',
       HistoryReplaceState \<lparr>index = Some 0, scrollY = Some 0\<rparr>,
       HistoryPushState \<lparr>index = Some 1, scrollY = Some 0\<rparr> ''https://example.org/next'',
       SwapHead, ReplaceBody, ScrollTo 0 0, DispatchEvent AstroBeforeload,
       DispatchEvent AstroLoad]"
  by code_simp

text \<open>
  For comparison, the barrier at work: from a page without any stylesheet link the same
  navigation appends a preload link for \<open>/b.css\<close> and waits; the swap follows when the
  preload has settled.
\<close>

lemma preload_barrier_sample:
  "effects (run [Click (leftClick ''/next''),
                 Resume 0 (Response True (sitePage ''swap'' ''/b.css'' ''Next'' []))]
        (started (unstyledPage ''swap'') False 0)) =
      [HistoryReplaceState \<lparr>index = Some 0, scrollY = Some 0\<rparr>, PreventDefault,
       Fetch ''https://example.org/next'',
       HistoryReplaceState \<lparr>index = Some 0, scrollY = Some 0\<rparr>,
       HistoryPushState \<lparr>index = Some 1, scrollY = Some 0\<rparr> ''https://example.org/next'',
       AppendToHead (preloadLink (stylesheetLink ''/b.css''))]
   \<and> pending (run [Click (leftClick ''/next''),
                 Resume 0 (Response True (sitePage ''swap'' ''/b.css'' ''Next'' []))]
        (started (unstyledPage ''swap'') False 0)) =
      [AwaitLinks False Forward (tagDirection Forward (sitePage ''swap'' ''/b.css'' ''Next'' []))
         (Some \<lparr>index = Some 0, scrollY = Some 0\<rparr>) (Some ''swap'') 1]
   \<and> effects (run [Click (leftClick ''/next''),
                 Resume 0 (Response True (sitePage ''swap'' ''/b.css'' ''Next'' [])),
                 Resume 0 Settled]
        (started (unstyledPage ''swap'') False 0)) =
      [HistoryReplaceState \<lparr>index = Some 0, scrollY = Some 0\<rparr>, PreventDefault,
       Fetch ''https://example.org/next'',
       HistoryReplaceState \<lparr>index = Some 0, scrollY = Some 0\<rparr>,
       HistoryPushState \<lparr>index = Some 1, scrollY = Some 0\<rparr> ''https://example.org/next'',
       AppendToHead (preloadLink (stylesheetLink ''/b.css'')),
       SwapHead, ReplaceBody, ScrollTo 0 0, DispatchEvent AstroBeforeload,
       DispatchEvent AstroLoad]"
  by code_simp

subsection \<open>The order of swap and load on the fallback path\<close>

text \<open>
  Claim C3: on the fallback path the transition marker is removed, the new document's
  scripts are re-run and \<open>astro:load\<close> is dispatched only after the swap.

  With the fallback \<open>animate\<close>, \<open>updateDOM\<close> registers \<open>fallbackSwap\<close> for
  \<open>animationend\<close> and for a timeout and returns, so \<open>await finished\<close> in \<open>navigate\<close>
  continues before either can fire. The theorem evaluates such a navigation: when the
  response has been handled the log ends with the re-run of the script of the page being
  left and with \<open>astro:load\<close>, while the body is still the old one; the swap and
  \<open>astro:beforeload\<close> follow when the timeout fires.
\<close>

theorem load_before_swap_in_animate_fallback:
  "effects (run [Click (leftClick ''/next''),
                 Resume 0 (Response True (sitePage ''animate'' ''/a.css'' ''Next'' [inlineScript ''next()'']))]
        (started (sitePage ''animate'' ''/a.css'' ''Home'' [inlineScript ''home()'']) False 0)) =
      [HistoryReplaceState \<lparr>index = Some 0, scrollY = Some 0\<rparr>, PreventDefault,
       Fetch ''https://example.org/next'',
       HistoryReplaceState \<lparr>index = Some 0, scrollY = Some 0\<rparr>,
       HistoryPushState \<lparr>index = Some 1, scrollY = Some 0\<rparr> ''https://example.org/next'',
       SetTimeout 0, InsertScript (inlineScript ''home()''), DispatchEvent AstroLoad]
   \<and> body (document (run [Click (leftClick ''/next''),
                 Resume 0 (Response True (sitePage ''animate'' ''/a.css'' ''Next'' [inlineScript ''next()'']))]
        (started (sitePage ''animate'' ''/a.css'' ''Home'' [inlineScript ''home()'']) False 0))) =
      body (sitePage ''animate'' ''/a.css'' ''Home'' [inlineScript ''home()''])
   \<and> effects (run [Click (leftClick ''/next''),
                 Resume 0 (Response True (sitePage ''animate'' ''/a.css'' ''Next'' [inlineScript ''next()''])),
                 Resume 0 TimerFired]
        (started (sitePage ''animate'' ''/a.css'' ''Home'' [inlineScript ''home()'']) False 0)) =
      [HistoryReplaceState \<lparr>index = Some 0, scrollY = Some 0\<rparr>, PreventDefault,
       Fetch ''https://example.org/next'',
       HistoryReplaceState \<lparr>index = Some 0, scrollY = Some 0\<rparr>,
       HistoryPushState \<lparr>index = Some 1, scrollY = Some 0\<rparr> ''https://example.org/next'',
       SetTimeout 0, InsertScript (inlineScript ''home()''), DispatchEvent AstroLoad,
       SwapHead, ReplaceBody, ScrollTo 0 0, DispatchEvent AstroBeforeload]"
  by code_simp

subsection \<open>Re-running scripts\<close>




subsection \<open>A failed fetch\<close>

text \<open>
  Claim C5: when the fetch of the destination returns a response that is not ok, the
  navigation changes nothing in the document (head, body and scroll offset stay as they
  are), fetches nothing again, and assigns the URL to \<open>location.href\<close>, a full browser
  navigation. The theorem is about any pending \<open>navigate\<close> that receives such a
  response: the only effect added to the log is the assignment, and the task is gone.
\<close>

theorem fetch_not_ok:
  assumes "i < length (pending w)" and "pending w ! i = AwaitGetHTML dir url state"
  shows "resume i (Response False html) w =
           effect (LocationAssign url) (w\<lparr>pending := take i (pending w) @ drop (Suc i) (pending w)\<rparr>)
       \<and> document (resume i (Response False html) w) = document w
       \<and> window_scrollY (resume i (Response False html) w) = window_scrollY w
       \<and> history (resume i (Response False html) w) = history w
       \<and> effects (resume i (Response False html) w) = effects w @ [LocationAssign url]
       \<and> pending (resume i (Response False html) w) = take i (pending w) @ drop (Suc i) (pending w)"
  using assms by (simp add: resume_def resumeTask_def navigate_fetched_def effect_def)

theorem fetch_not_ok_witness:
  "effects (resume 0 (Response False plainPage)
      (dispatch (Click (leftClick ''/next''))
         (started (sitePage ''animate'' ''/a.css'' ''Home'' []) False 0))) =
     [HistoryReplaceState \<lparr>index = Some 0, scrollY = Some 0\<rparr>, PreventDefault,
      Fetch ''https://example.org/next'',
      HistoryReplaceState \<lparr>index = Some 0, scrollY = Some 0\<rparr>,
      HistoryPushState \<lparr>index = Some 1, scrollY = Some 0\<rparr> ''https://example.org/next'',
      LocationAssign ''https://example.org/next'']
   \<and> document (resume 0 (Response False plainPage)
      (dispatch (Click (leftClick ''/next''))
         (started (sitePage ''animate'' ''/a.css'' ''Home'' []) False 0))) =
     sitePage ''animate'' ''/a.css'' ''Home'' []"
proof -
  let ?w = "dispatch (Click (leftClick ''/next''))
              (started (sitePage ''animate'' ''/a.css'' ''Home'' []) False 0)"
  have a: "0 < length (pending ?w)" by code_simp
  have b: "pending ?w ! 0 = AwaitGetHTML Forward ''https://example.org/next''
             (Some \<lparr>index = Some 0, scrollY = Some 0\<rparr>)"
    by code_simp
  have c: "effects ?w =
     [HistoryReplaceState \<lparr>index = Some 0, scrollY = Some 0\<rparr>, PreventDefault,
      Fetch ''https://example.org/next'',
      HistoryReplaceState \<lparr>index = Some 0, scrollY = Some 0\<rparr>,
      HistoryPushState \<lparr>index = Some 1, scrollY = Some 0\<rparr> ''https://example.org/next'']"
    by code_simp
  have d: "document ?w = sitePage ''animate'' ''/a.css'' ''Home'' []" by code_simp
  note r = fetch_not_ok [OF a b, of plainPage]
  from r [THEN conjunct2, THEN conjunct1]
       r [THEN conjunct2, THEN conjunct2, THEN conjunct2, THEN conjunct2, THEN conjunct1] c d
  show ?thesis by (simp del: dispatch.simps)
qed

subsection \<open>The head merge\<close>

text \<open>
  Claim C6, as stated: every live head element with an equivalent in the incoming head is
  kept and the incoming equivalent removed, every live head element without one is
  removed, and what remains of the incoming head is appended.

  The loop removes an equivalent from the incoming head as soon as one live element has
  claimed it. When the live head has two stylesheet links for \<open>/a.css\<close> and the incoming
  head has one, the second live link has an equivalent in the incoming head and is
  removed all the same.
\<close>

theorem head_merge_counterexample:
  "equivalent (stylesheetLink ''/a.css'') (stylesheetLink ''/a.css'')
   \<and> persistedHeadElement [stylesheetLink ''/a.css''] (stylesheetLink ''/a.css'') =
       Inr (Some (stylesheetLink ''/a.css''))
   \<and> stylesheetLink ''/a.css'' \<in> set [persistedStylesheetLink ''theme'' ''/a.css'', stylesheetLink ''/a.css'']
   \<and> swapHead [persistedStylesheetLink ''theme'' ''/a.css'', stylesheetLink ''/a.css'']
             [stylesheetLink ''/a.css''] = (([persistedStylesheetLink ''theme'' ''/a.css''], []), None)
   \<and> stylesheetLink ''/a.css'' \<notin>
       set (fst (fst (swapHead [persistedStylesheetLink ''theme'' ''/a.css'', stylesheetLink ''/a.css'']
             [stylesheetLink ''/a.css''])))"
  by code_simp

text \<open>
  Claim C6, amended: for live head elements whose identifier and \<open>href\<close> are plain
  texts, the head merge takes the live head elements in document order. An element that
  has an equivalent in what is left of the incoming head when its turn comes is kept, and
  the equivalent that \<open>persistedHeadElement\<close> found is removed from the incoming head; any
  other element is removed from the live head. \<open>persistedHeadElement\<close> finds an element
  exactly when the forest it searches holds an equivalent one, and what it finds is
  equivalent: it carries the same non-empty persistence identifier, or both are
  stylesheet links and its \<open>href\<close> is that of the live element. Afterwards what is left
  of the incoming head is appended to the live head. In particular an element with no
  equivalent in the incoming head as fetched is never kept.
\<close>

theorem head_merge_in_order:
  assumes "\<forall>e \<in> set (before @ el # after). plainSelectors e"
  shows "swapHead (before @ el # after) docHead =
           (let (kept1, left1) = fst (swapHead before docHead)
            in case persistedHeadElement left1 el of
                 Inr (Some newEl) \<Rightarrow>
                   (let (kept2, left2) = fst (swapHead after (remove newEl left1))
                    in ((kept1 @ el # kept2, left2), None))
               | _ \<Rightarrow>
                   (let (kept2, left2) = fst (swapHead after left1)
                    in ((kept1 @ kept2, left2), None)))
       \<and> (\<forall>n. persistedHeadElement forest el = Inr (Some n) \<longrightarrow>
                n \<in> set (descendants forest) \<and> equivalent el n)
       \<and> ((\<exists>n \<in> set (descendants forest). equivalent el n) \<longrightarrow>
            (\<exists>n. persistedHeadElement forest el = Inr (Some n)))
       \<and> (head (document w) = before @ el # after \<longrightarrow>
            swap_head doc w =
              (effect SwapHead
                 (w\<lparr>document := (document w)\<lparr>head :=
                      fst (fst (swapHead (head (document w)) (head doc))) @
                      snd (fst (swapHead (head (document w)) (head doc)))\<rparr>\<rparr>),
               None))
       \<and> (\<forall>x. (\<forall>n \<in> set (descendants docHead). \<not> equivalent x n) \<longrightarrow>
                x \<notin> set (fst (fst (swapHead (before @ el # after) docHead))))"
proof (intro conjI)
  from assms have pb: "\<forall>e \<in> set before. plainSelectors e" and pe: "plainSelectors el"
    and pa: "\<forall>e \<in> set after. plainSelectors e" by simp_all
  obtain kept1 left1 where k1: "fst (swapHead before docHead) = (kept1, left1)"
    by (cases "fst (swapHead before docHead)")
  from persistedHeadElement_plain [OF pe, of left1] obtain r
    where r: "persistedHeadElement left1 el = Inr r" by blast
  have x1: "snd (swapHead after left1) = None"
    by (rule swapHead_plain [OF pa])
  have x2: "snd (swapHead after (remove n left1)) = None" for n
    by (rule swapHead_plain [OF pa])
  show "swapHead (before @ el # after) docHead =
           (let (kept1, left1) = fst (swapHead before docHead)
            in case persistedHeadElement left1 el of
                 Inr (Some newEl) \<Rightarrow>
                   (let (kept2, left2) = fst (swapHead after (remove newEl left1))
                    in ((kept1 @ el # kept2, left2), None))
               | _ \<Rightarrow>
                   (let (kept2, left2) = fst (swapHead after left1)
                    in ((kept1 @ kept2, left2), None)))"
    using swapHead_append [OF pb, of "el # after" docHead] k1 r x1 x2
    by (cases r) (simp_all add: split_beta Let_def prod_eq_iff)
  show "\<forall>n. persistedHeadElement forest el = Inr (Some n) \<longrightarrow>
                n \<in> set (descendants forest) \<and> equivalent el n"
    using persistedHeadElement_sound by blast
  show "(\<exists>n \<in> set (descendants forest). equivalent el n) \<longrightarrow>
            (\<exists>n. persistedHeadElement forest el = Inr (Some n))"
    using persistedHeadElement_complete [OF pe] by blast
  show "head (document w) = before @ el # after \<longrightarrow>
            swap_head doc w =
              (effect SwapHead
                 (w\<lparr>document := (document w)\<lparr>head :=
                      fst (fst (swapHead (head (document w)) (head doc))) @
                      snd (fst (swapHead (head (document w)) (head doc)))\<rparr>\<rparr>),
               None)"
  proof
    assume h: "head (document w) = before @ el # after"
    with assms swapHead_plain [of "head (document w)" "head doc"]
    have "snd (swapHead (head (document w)) (head doc)) = None" by simp
    then show "swap_head doc w =
              (effect SwapHead
                 (w\<lparr>document := (document w)\<lparr>head :=
                      fst (fst (swapHead (head (document w)) (head doc))) @
                      snd (fst (swapHead (head (document w)) (head doc)))\<rparr>\<rparr>),
               None)"
      by (simp add: swap_head_def split_beta)
  qed
  show "\<forall>x. (\<forall>n \<in> set (descendants docHead). \<not> equivalent x n) \<longrightarrow>
                x \<notin> set (fst (fst (swapHead (before @ el # after) docHead)))"
    using swapHead_kept [OF assms] by blast
qed

theorem head_merge_in_order_witness:
  "plainSelectors (metaTag ''description'' ''Home'')
   \<and> plainSelectors (capitalStylesheetLink ''/a.css'')
   \<and> plainSelectors (themeStyle ''live'')
   \<and> swapHead ([metaTag ''description'' ''Home''] @ capitalStylesheetLink ''/a.css'' #
                 [themeStyle ''live''])
        [metaTag ''description'' ''Next'', themeStyle ''new'', stylesheetLink ''/a.css'',
         stylesheetLink ''/b.css''] =
      (([capitalStylesheetLink ''/a.css'', themeStyle ''live''],
        [metaTag ''description'' ''Next'', stylesheetLink ''/b.css'']), None)
   \<and> metaTag ''description'' ''Home'' \<notin>
       set (fst (fst (swapHead ([metaTag ''description'' ''Home''] @ capitalStylesheetLink ''/a.css'' #
                 [themeStyle ''live''])
        [metaTag ''description'' ''Next'', themeStyle ''new'', stylesheetLink ''/a.css'',
         stylesheetLink ''/b.css''])))"
proof -
  let ?inc = "[metaTag ''description'' ''Next'', themeStyle ''new'', stylesheetLink ''/a.css'',
         stylesheetLink ''/b.css'']"
  have h: "\<forall>e \<in> set ([metaTag ''description'' ''Home''] @ capitalStylesheetLink ''/a.css'' #
                 [themeStyle ''live'']). plainSelectors e"
    by code_simp
  note r = head_merge_in_order [OF h, of ?inc]
  have v: "(let (kept1, left1) = fst (swapHead [metaTag ''description'' ''Home''] ?inc)
            in case persistedHeadElement left1 (capitalStylesheetLink ''/a.css'') of
                 Inr (Some newEl) \<Rightarrow>
                   (let (kept2, left2) = fst (swapHead [themeStyle ''live''] (remove newEl left1))
                    in ((kept1 @ capitalStylesheetLink ''/a.css'' # kept2, left2), None))
               | _ \<Rightarrow>
                   (let (kept2, left2) = fst (swapHead [themeStyle ''live''] left1)
                    in ((kept1 @ kept2, left2), None))) =
           (([capitalStylesheetLink ''/a.css'', themeStyle ''live''],
             [metaTag ''description'' ''Next'', stylesheetLink ''/b.css'']),
            None :: DOMException option)"
    by code_simp
  have n: "\<forall>n \<in> set (descendants ?inc). \<not> equivalent (metaTag ''description'' ''Home'') n"
    by code_simp
  from r [THEN conjunct1] v
  have a: "swapHead ([metaTag ''description'' ''Home''] @ capitalStylesheetLink ''/a.css'' #
                 [themeStyle ''live'']) ?inc =
      (([capitalStylesheetLink ''/a.css'', themeStyle ''live''],
        [metaTag ''description'' ''Next'', stylesheetLink ''/b.css'']), None)"
    by (rule trans)
  from r [THEN conjunct2, THEN conjunct2, THEN conjunct2, THEN conjunct2, THEN spec, THEN mp, OF n]
  have b: "metaTag ''description'' ''Home'' \<notin>
       set (fst (fst (swapHead ([metaTag ''description'' ''Home''] @ capitalStylesheetLink ''/a.css'' #
                 [themeStyle ''live'']) ?inc)))" .
  have p: "plainSelectors (metaTag ''description'' ''Home'')"
    "plainSelectors (capitalStylesheetLink ''/a.css'')" "plainSelectors (themeStyle ''live'')"
    by code_simp+
  from p a b show ?thesis by blast
qed

subsection \<open>Direction of a history traversal\<close>

text \<open>
  Claim C7: on a \<open>popstate\<close> whose state has an index, the direction of the navigation is
  forward exactly when that index is greater than \<open>currentHistoryIndex\<close>, and back
  otherwise, equal indices included. The listener is a total function of the event and
  the world: on a page with the marker it starts the navigation for the current URL with
  that direction and takes the index over.
\<close>

theorem popstate_direction:
  assumes "transitionEnabledOnThisPage w" and "history_state w = Some st" and "index st = Some i"
  shows "popstate_listener (history_state w) w =
           (navigate (if i > currentHistoryIndex w then Forward else Back)
              (href (location w)) (Some st) w)\<lparr>currentHistoryIndex := i\<rparr>"
  using assms by (simp add: popstate_listener_def Let_def)

theorem popstate_direction_witness:
  "popstate_listener
     (history_state (traversedTo (sitePage ''animate'' ''/a.css'' ''Home'' []) 2
        \<lparr>index = Some 3, scrollY = Some 40\<rparr>))
     (traversedTo (sitePage ''animate'' ''/a.css'' ''Home'' []) 2 \<lparr>index = Some 3, scrollY = Some 40\<rparr>) =
   (navigate Forward ''https://example.org/b'' (Some \<lparr>index = Some 3, scrollY = Some 40\<rparr>)
      (traversedTo (sitePage ''animate'' ''/a.css'' ''Home'' []) 2 \<lparr>index = Some 3, scrollY = Some 40\<rparr>))
     \<lparr>currentHistoryIndex := 3\<rparr>
   \<and> popstate_listener
     (history_state (traversedTo (sitePage ''animate'' ''/a.css'' ''Home'' []) 2
        \<lparr>index = Some 2, scrollY = Some 40\<rparr>))
     (traversedTo (sitePage ''animate'' ''/a.css'' ''Home'' []) 2 \<lparr>index = Some 2, scrollY = Some 40\<rparr>) =
   (navigate Back ''https://example.org/b'' (Some \<lparr>index = Some 2, scrollY = Some 40\<rparr>)
      (traversedTo (sitePage ''animate'' ''/a.css'' ''Home'' []) 2 \<lparr>index = Some 2, scrollY = Some 40\<rparr>))
     \<lparr>currentHistoryIndex := 2\<rparr>"
proof -
  let ?st = "\<lparr>index = Some 3, scrollY = Some 40\<rparr>"
  let ?w = "traversedTo (sitePage ''animate'' ''/a.css'' ''Home'' []) 2 ?st"
  let ?st' = "\<lparr>index = Some 2, scrollY = Some 40\<rparr>"
  let ?w' = "traversedTo (sitePage ''animate'' ''/a.css'' ''Home'' []) 2 ?st'"
  have a: "transitionEnabledOnThisPage ?w" by code_simp
  have b: "history_state ?w = Some ?st" by code_simp
  have c: "index ?st = Some 3" by simp
  have d: "currentHistoryIndex ?w = 2" by code_simp
  have e: "href (location ?w) = ''https://example.org/b''" by code_simp
  have a': "transitionEnabledOnThisPage ?w'" by code_simp
  have b': "history_state ?w' = Some ?st'" by code_simp
  have c': "index ?st' = Some 2" by simp
  have d': "currentHistoryIndex ?w' = 2" by code_simp
  have e': "href (location ?w') = ''https://example.org/b''" by code_simp
  from popstate_direction [OF a b c] d e popstate_direction [OF a' b' c'] d' e'
  show ?thesis by simp
qed

subsection \<open>A traversal on a page without the marker\<close>

text \<open>
  Claim C8: a \<open>popstate\<close> that arrives while the current page lacks the marker
  \<open>astro-view-transitions-enabled\<close> makes the script reload the page and do nothing else:
  the log gains \<open>location.reload()\<close> only (no fetch, no head merge, no body swap), and the
  document, the scroll offset and the pending tasks are as before.
\<close>

theorem popstate_opt_out:
  assumes "OnPopstate \<in> set (listeners w)" and "\<not> transitionEnabledOnThisPage w"
  shows "dispatch (Popstate delta) w = effect LocationReload (w\<lparr>history := traverse delta (history w)\<rparr>)
       \<and> document (dispatch (Popstate delta) w) = document w
       \<and> pending (dispatch (Popstate delta) w) = pending w
       \<and> window_scrollY (dispatch (Popstate delta) w) = window_scrollY w
       \<and> effects (dispatch (Popstate delta) w) = effects w @ [LocationReload]"
  using assms by (simp add: popstate_listener_def Let_def effect_def del: traverse.simps)

theorem popstate_opt_out_witness:
  "effects (dispatch (Popstate (- 1)) onPlainPage) =
     [HistoryReplaceState \<lparr>index = Some 0, scrollY = Some 0\<rparr>, LocationReload]
   \<and> document (dispatch (Popstate (- 1)) onPlainPage) = plainPage"
proof -
  have a: "OnPopstate \<in> set (listeners onPlainPage)" by code_simp
  have b: "\<not> transitionEnabledOnThisPage onPlainPage" by code_simp
  have c: "effects onPlainPage = [HistoryReplaceState \<lparr>index = Some 0, scrollY = Some 0\<rparr>]"
    by code_simp
  have d: "document onPlainPage = plainPage" by code_simp
  note r = popstate_opt_out [OF a b, of "- 1"]
  from r [THEN conjunct2, THEN conjunct1]
       r [THEN conjunct2, THEN conjunct2, THEN conjunct2, THEN conjunct2] c d
  show ?thesis by (simp del: dispatch.simps)
qed

subsection \<open>The throttled scroll listener\<close>

text \<open>
  Claim C9: however often the throttled scroll callback is invoked within one window
  (from a call that finds \<open>wait\<close> false until the timeout resets it), at most one history
  write is made, and it is made by the first call; the later calls are dropped, not
  deferred. For scroll events \<open>y # ys\<close> with no timeout in between: the world afterwards
  is the world after the first event except for the window's scroll offset; the log has
  grown by the first call's write (if \<open>history.state\<close> was set) and the timeout; and
  when the timeout fires nothing is written.
\<close>

theorem scroll_throttle:
  assumes "OnScroll \<in> set (listeners w)" and "\<not> throttle_wait w"
  shows "run (map Scroll (y # ys)) w = (dispatch (Scroll y) w)\<lparr>window_scrollY := last (y # ys)\<rparr>
       \<and> effects (run (map Scroll (y # ys)) w) =
           effects (scroll_callback (w\<lparr>window_scrollY := y\<rparr>)) @ [SetTimeout 300]
       \<and> historyWrites (run (map Scroll (y # ys)) w) \<le> historyWrites w + 1
       \<and> pending (run (map Scroll (y # ys)) w) = pending w @ [ThrottleTimer]
       \<and> effects (resume (length (pending w)) TimerFired (run (map Scroll (y # ys)) w)) =
           effects (run (map Scroll (y # ys)) w)"
proof -
  let ?w1 = "dispatch (Scroll y) w"
  have lead: "?w1 = suspend ThrottleTimer (effect (SetTimeout 300)
             ((scroll_callback (w\<lparr>window_scrollY := y\<rparr>))\<lparr>throttle_wait := True\<rparr>))"
    using assms by (rule scroll_leading)
  have w1: "throttle_wait ?w1" "OnScroll \<in> set (listeners ?w1)" "window_scrollY ?w1 = y"
    using assms by (simp_all add: lead suspend_def effect_def scroll_callback_keeps del: dispatch.simps)
  have r: "run (map Scroll (y # ys)) w = ?w1\<lparr>window_scrollY := last (y # ys)\<rparr>"
    using scroll_dropped [OF w1(1) w1(2), of ys] w1(3) by (simp del: dispatch.simps)
  have e: "effects ?w1 = effects (scroll_callback (w\<lparr>window_scrollY := y\<rparr>)) @ [SetTimeout 300]"
    by (simp add: lead suspend_def effect_def del: dispatch.simps)
  have p: "pending ?w1 = pending w @ [ThrottleTimer]"
    by (simp add: lead suspend_def effect_def scroll_callback_keeps del: dispatch.simps)
  have h: "historyWrites ?w1 \<le> historyWrites w + 1"
    using scroll_callback_writes [of "w\<lparr>window_scrollY := y\<rparr>"]
    by (simp add: historyWrites_def e del: dispatch.simps)
  have t: "effects (resume (length (pending w)) TimerFired (?w1\<lparr>window_scrollY := last (y # ys)\<rparr>)) =
           effects ?w1"
    by (simp add: resume_def resumeTask_def p del: dispatch.simps)
  show ?thesis
    unfolding r using e h p t by (simp add: historyWrites_def del: dispatch.simps run.simps)
qed

theorem scroll_throttle_witness:
  "effects (run (map Scroll [10, 20, 30]) (started (sitePage ''animate'' ''/a.css'' ''Home'' []) False 0)) =
     [HistoryReplaceState \<lparr>index = Some 0, scrollY = Some 0\<rparr>,
      HistoryReplaceState \<lparr>index = Some 0, scrollY = Some 10\<rparr>, SetTimeout 300]"
proof -
  let ?w = "started (sitePage ''animate'' ''/a.css'' ''Home'' []) False 0"
  have a: "OnScroll \<in> set (listeners ?w)" by code_simp
  have b: "\<not> throttle_wait ?w" by code_simp
  have c: "effects (scroll_callback (?w\<lparr>window_scrollY := 10\<rparr>)) =
             [HistoryReplaceState \<lparr>index = Some 0, scrollY = Some 0\<rparr>,
              HistoryReplaceState \<lparr>index = Some 0, scrollY = Some 10\<rparr>]"
    by code_simp
  note r = scroll_throttle [OF a b, of 10 "[20, 30]"]
  from r [THEN conjunct2, THEN conjunct1] c show ?thesis
    by (simp del: dispatch.simps run.simps)
qed

subsection \<open>The guard around the listeners\<close>

text \<open>
  Claim C10: when the platform has no native view transitions and \<open>getFallback()\<close> is
  \<open>'none'\<close>, the script installs no listener. Whatever the browser then delivers
  (clicks, traversals, hovers, scrolling), the script does nothing: after its top level
  has run the log never grows, so there is no fetch, no prefetch link and no write of the
  scroll offset, and the document stays as it is. The one history write the top level
  itself may make stores the constant 0 for an entry without state.
\<close>

theorem no_listeners_when_fallback_none:
  assumes "\<not> supportsViewTransitions w" and "getFallback w = Some ''none''"
    and "listeners w = []" and "pending w = []"
  shows "listeners (main w) = []
       \<and> effects (main w) = effects w @
            (if history_state w = None
             then [HistoryReplaceState \<lparr>index = Some 0, scrollY = Some 0\<rparr>] else [])
       \<and> effects (run evs (main w)) = effects (main w)
       \<and> document (run evs (main w)) = document w
       \<and> pending (run evs (main w)) = []"
proof -
  have g: "\<And>w'. document w' = document w \<Longrightarrow> getFallback w' = Some ''none''"
    using assms(2) by (simp add: getFallback_def)
  have l: "listeners (main w) = []" and p: "pending (main w) = []"
    and d: "document (main w) = document w"
    using assms
    by (simp_all add: main_def Let_def g persistState_def effect_def history_state_def)
  have e: "effects (main w) = effects w @
            (if history_state w = None
             then [HistoryReplaceState \<lparr>index = Some 0, scrollY = Some 0\<rparr>] else [])"
    using assms
    by (simp add: main_def Let_def g persistState_def effect_def history_state_def)
  from run_no_listeners [OF l p, of evs] l e d show ?thesis by simp
qed

theorem no_listeners_when_fallback_none_witness:
  "listeners (main (arrived (sitePage ''none'' ''/a.css'' ''Home'' []) False 0)) = []
   \<and> effects (run [Click (leftClick ''/next''), Scroll 120,
                    Mouseenter (Some (siteAnchor ''/next'')), Popstate (- 1)]
        (main (arrived (sitePage ''none'' ''/a.css'' ''Home'' []) False 0))) =
      [HistoryReplaceState \<lparr>index = Some 0, scrollY = Some 0\<rparr>]"
proof -
  let ?w = "arrived (sitePage ''none'' ''/a.css'' ''Home'' []) False 0"
  have a: "\<not> supportsViewTransitions ?w" by code_simp
  have b: "getFallback ?w = Some ''none''" by code_simp
  have c: "listeners ?w = []" by code_simp
  have d: "pending ?w = []" by code_simp
  have e: "history_state ?w = None" by code_simp
  have f: "effects ?w = []" by code_simp
  from no_listeners_when_fallback_none [OF a b c d,
         of "[Click (leftClick ''/next''), Scroll 120, Mouseenter (Some (siteAnchor ''/next'')),
              Popstate (- 1)]"] e f
  show ?thesis by (simp del: dispatch.simps run.simps)
qed

end
